theory Spec2Isabelle
  imports Main "HOL-Library.Sublist"
begin

unbundle bit_operations_syntax

section \<open>SHA-256, as \<open>hashlib.sha256\<close> computes it\<close>

text \<open>
  \<open>bussines_chatbot.py\<close> hashes passwords with \<open>hashlib.sha256(s.encode()).hexdigest()\<close>.
  The hash is FIPS 180-4 SHA-256. Bytes and 32-bit words are natural numbers; every
  32-bit addition is written with its reduction modulo \<open>2 ^ 32\<close>, and the rotations
  and the complement are the ones of a 32-bit register for arguments below \<open>2 ^ 32\<close>
  (every word of the computation is one).
\<close>

type_synonym byte = nat
type_synonym word32 = nat

definition K256 :: "word32 list" where
  "K256 =
   [0x428A2F98, 0x71374491, 0xB5C0FBCF, 0xE9B5DBA5, 0x3956C25B, 0x59F111F1,
    0x923F82A4, 0xAB1C5ED5, 0xD807AA98, 0x12835B01, 0x243185BE, 0x550C7DC3,
    0x72BE5D74, 0x80DEB1FE, 0x9BDC06A7, 0xC19BF174, 0xE49B69C1, 0xEFBE4786,
    0x0FC19DC6, 0x240CA1CC, 0x2DE92C6F, 0x4A7484AA, 0x5CB0A9DC, 0x76F988DA,
    0x983E5152, 0xA831C66D, 0xB00327C8, 0xBF597FC7, 0xC6E00BF3, 0xD5A79147,
    0x06CA6351, 0x14292967, 0x27B70A85, 0x2E1B2138, 0x4D2C6DFC, 0x53380D13,
    0x650A7354, 0x766A0ABB, 0x81C2C92E, 0x92722C85, 0xA2BFE8A1, 0xA81A664B,
    0xC24B8B70, 0xC76C51A3, 0xD192E819, 0xD6990624, 0xF40E3585, 0x106AA070,
    0x19A4C116, 0x1E376C08, 0x2748774C, 0x34B0BCB5, 0x391C0CB3, 0x4ED8AA4A,
    0x5B9CCA4F, 0x682E6FF3, 0x748F82EE, 0x78A5636F, 0x84C87814, 0x8CC70208,
    0x90BEFFFA, 0xA4506CEB, 0xBEF9A3F7, 0xC67178F2]"

definition H256_init :: "word32 list" where
  "H256_init =
   [0x6A09E667, 0xBB67AE85, 0x3C6EF372, 0xA54FF53A,
    0x510E527F, 0x9B05688C, 0x1F83D9AB, 0x5BE0CD19]"

definition add32 :: "word32 \<Rightarrow> word32 \<Rightarrow> word32" where
  "add32 x y = (x + y) mod 2 ^ 32"

definition rotr :: "nat \<Rightarrow> word32 \<Rightarrow> word32" where
  "rotr n x = x div 2 ^ n + (x mod 2 ^ n) * 2 ^ (32 - n)"

definition shr :: "nat \<Rightarrow> word32 \<Rightarrow> word32" where
  "shr n x = x div 2 ^ n"

definition not32 :: "word32 \<Rightarrow> word32" where
  "not32 x = 2 ^ 32 - 1 - x"

definition ch :: "word32 \<Rightarrow> word32 \<Rightarrow> word32 \<Rightarrow> word32" where
  "ch x y z = (x AND y) XOR (not32 x AND z)"

definition maj :: "word32 \<Rightarrow> word32 \<Rightarrow> word32 \<Rightarrow> word32" where
  "maj x y z = (x AND y) XOR (x AND z) XOR (y AND z)"

definition big_sigma0 :: "word32 \<Rightarrow> word32" where
  "big_sigma0 x = rotr 2 x XOR rotr 13 x XOR rotr 22 x"

definition big_sigma1 :: "word32 \<Rightarrow> word32" where
  "big_sigma1 x = rotr 6 x XOR rotr 11 x XOR rotr 25 x"

definition small_sigma0 :: "word32 \<Rightarrow> word32" where
  "small_sigma0 x = rotr 7 x XOR rotr 18 x XOR shr 3 x"

definition small_sigma1 :: "word32 \<Rightarrow> word32" where
  "small_sigma1 x = rotr 17 x XOR rotr 19 x XOR shr 10 x"

text \<open>\<open>be_bytes k n\<close>: the \<open>k\<close> low bytes of \<open>n\<close>, most significant first.\<close>

fun be_bytes :: "nat \<Rightarrow> nat \<Rightarrow> byte list" where
  "be_bytes 0 n = []"
| "be_bytes (Suc k) n = be_bytes k (n div 256) @ [n mod 256]"

text \<open>
  Padding: the byte \<open>0x80\<close>, zero bytes up to 56 modulo 64, then the length of the
  message in bits on eight bytes.
\<close>

definition pad :: "byte list \<Rightarrow> byte list" where
  "pad m = m @ [0x80] @ replicate ((119 - length m mod 64) mod 64) 0
             @ be_bytes 8 (8 * length m)"

fun be_words :: "byte list \<Rightarrow> word32 list" where
  "be_words (a # b # c # d # bs) = (((a * 256 + b) * 256 + c) * 256 + d) # be_words bs"
| "be_words _ = []"

fun blocks :: "word32 list \<Rightarrow> word32 list list" where
  "blocks [] = []"
| "blocks (w # ws) = take 16 (w # ws) # blocks (drop 16 (w # ws))"

text \<open>
  The message schedule is extended with the newest word first, so that
  \<open>W\<^sub>t\<^sub>-\<^sub>2\<close>, \<open>W\<^sub>t\<^sub>-\<^sub>7\<close>, \<open>W\<^sub>t\<^sub>-\<^sub>1\<^sub>5\<close> and \<open>W\<^sub>t\<^sub>-\<^sub>1\<^sub>6\<close> sit at fixed positions.
\<close>

definition next_w :: "word32 list \<Rightarrow> word32" where
  "next_w ws = add32 (add32 (small_sigma1 (ws ! 1)) (ws ! 6))
                     (add32 (small_sigma0 (ws ! 14)) (ws ! 15))"

fun extend_schedule :: "nat \<Rightarrow> word32 list \<Rightarrow> word32 list" where
  "extend_schedule 0 ws = ws"
| "extend_schedule (Suc n) ws = extend_schedule n (next_w ws # ws)"

definition schedule :: "word32 list \<Rightarrow> word32 list" where
  "schedule block = rev (extend_schedule 48 (rev block))"

fun shift_in :: "word32 list \<Rightarrow> word32 \<Rightarrow> word32 \<Rightarrow> word32 list" where
  "shift_in [a, b, c, d, e, f, g, h] t1 t2 = [add32 t1 t2, a, b, c, add32 d t1, e, f, g]"
| "shift_in st _ _ = st"

fun round256 :: "word32 list \<Rightarrow> word32 \<Rightarrow> word32 \<Rightarrow> word32 list" where
  "round256 [a, b, c, d, e, f, g, h] k w =
     shift_in [a, b, c, d, e, f, g, h]
       (add32 (add32 (add32 h (big_sigma1 e)) (add32 (ch e f g) k)) w)
       (add32 (big_sigma0 a) (maj a b c))"
| "round256 st _ _ = st"

fun rounds :: "word32 list \<Rightarrow> word32 list \<Rightarrow> word32 list \<Rightarrow> word32 list" where
  "rounds st (k # ks) (w # ws) = rounds (round256 st k w) ks ws"
| "rounds st _ _ = st"

fun add_state :: "word32 list \<Rightarrow> word32 list \<Rightarrow> word32 list" where
  "add_state (x # xs) (y # ys) = add32 x y # add_state xs ys"
| "add_state _ _ = []"

definition compress :: "word32 list \<Rightarrow> word32 list \<Rightarrow> word32 list" where
  "compress hs block = add_state hs (rounds hs K256 (schedule block))"

fun word_bytes :: "word32 list \<Rightarrow> byte list" where
  "word_bytes [] = []"
| "word_bytes (w # ws) = be_bytes 4 w @ word_bytes ws"

definition sha256 :: "byte list \<Rightarrow> byte list" where
  "sha256 m = word_bytes (foldl compress H256_init (blocks (be_words (pad m))))"

text \<open>\<open>hexdigest\<close>: two lower-case hexadecimal digits per byte.\<close>

definition hex_digit :: "nat \<Rightarrow> char" where
  "hex_digit n = ''0123456789abcdef'' ! n"

fun hexdigest :: "byte list \<Rightarrow> string" where
  "hexdigest [] = []"
| "hexdigest (b # bs) = hex_digit (b div 16) # hex_digit (b mod 16) # hexdigest bs"

text \<open>
  \<open>str.encode()\<close> is UTF-8. A \<^typ>\<open>char\<close> is a code point below 256: one byte below
  128, two bytes from 128 on.
\<close>

fun utf8 :: "nat \<Rightarrow> byte list" where
  "utf8 n = (if n < 128 then [n] else [192 + n div 64, 128 + n mod 64])"

fun encode :: "string \<Rightarrow> byte list" where
  "encode [] = []"
| "encode (c # cs) = utf8 (of_char c) @ encode cs"

text \<open>\<open>hashlib.sha256(s.encode()).hexdigest()\<close>\<close>

definition sha256_hexdigest :: "string \<Rightarrow> string" where
  "sha256_hexdigest s = hexdigest (sha256 (encode s))"

section \<open>User authentication\<close>

text \<open>The module-level dictionary \<open>users\<close> (lines 17-21).\<close>

definition users :: "string \<rightharpoonup> string" where
  "users = [''Moin'' \<mapsto> sha256_hexdigest ''user1'',
            ''user2'' \<mapsto> sha256_hexdigest ''password2'']"

text \<open>\<open>verify_password\<close> (lines 23-28).\<close>

definition verify_password :: "string \<Rightarrow> string \<Rightarrow> bool" where
  "verify_password user password =
     (if user \<in> dom users
      then (let hashed_input = sha256_hexdigest password
            in users user = Some hashed_input)
      else False)"

section \<open>JSON values\<close>

text \<open>
  The request body (the dictionary \<open>data\<close>) and the parsed response body
  (\<open>response.json()\<close>). \<open>JFloat m d\<close> is the decimal number \<open>m / 10 ^ d\<close>, as the JSON
  text writes it; an object is the list of its members (a parsed dictionary has every
  key once).
\<close>

datatype json =
    JNull
  | JBool bool
  | JInt int
  | JFloat int nat
  | JStr string
  | JArr "json list"
  | JObj "(string \<times> json) list"

datatype py_exception =
    RequestException
  | HTTPError nat
  | JSONDecodeError
  | KeyError
  | IndexError
  | TypeError
  | AttributeError
  | FileNotFoundError

fun bind_exn :: "py_exception + 'a \<Rightarrow> ('a \<Rightarrow> py_exception + 'b) \<Rightarrow> py_exception + 'b" where
  "bind_exn (Inl e) f = Inl e"
| "bind_exn (Inr x) f = f x"

text \<open>\<open>x[key]\<close> with a string key: only a dictionary has one.\<close>

fun getitem_str :: "json \<Rightarrow> string \<Rightarrow> py_exception + json" where
  "getitem_str (JObj members) k =
     (case map_of members k of Some v \<Rightarrow> Inr v | None \<Rightarrow> Inl KeyError)"
| "getitem_str _ k = Inl TypeError"

text \<open>
  \<open>x[0]\<close>: the first element of a list, the first character of a string; the keys of
  a parsed JSON object are strings, so \<open>0\<close> is never one of them.
\<close>

fun getitem_0 :: "json \<Rightarrow> py_exception + json" where
  "getitem_0 (JArr xs) = (case xs of [] \<Rightarrow> Inl IndexError | x # _ \<Rightarrow> Inr x)"
| "getitem_0 (JStr s) = (case s of [] \<Rightarrow> Inl IndexError | c # _ \<Rightarrow> Inr (JStr [c]))"
| "getitem_0 (JObj members) = Inl KeyError"
| "getitem_0 _ = Inl TypeError"

text \<open>
  \<open>str.strip()\<close> removes leading and trailing whitespace: for code points below 256,
  the characters for which \<open>str.isspace\<close> holds.
\<close>

definition py_isspace :: "char \<Rightarrow> bool" where
  "py_isspace c = ((of_char c :: nat) \<in> {9, 10, 11, 12, 13, 28, 29, 30, 31, 32, 133, 160})"

definition strip :: "string \<Rightarrow> string" where
  "strip s = rev (dropWhile py_isspace (rev (dropWhile py_isspace s)))"

text \<open>\<open>x.strip()\<close>: only a string has the method.\<close>

fun strip_method :: "json \<Rightarrow> py_exception + string" where
  "strip_method (JStr s) = Inr (strip s)"
| "strip_method _ = Inl AttributeError"

section \<open>The HTTP exchange\<close>

text \<open>
  \<open>requests.post\<close> either raises (no connection, timeout, ...) or returns a response:
  a status code and a body, which \<open>response.json()\<close> parses or rejects (\<open>None\<close>).
  \<open>raise_for_status\<close> raises for the status codes 400 to 599.
\<close>

record http_request =
  url :: string
  headers :: "(string \<times> string) list"
  json_body :: json

datatype http_outcome =
    RequestFailed
  | Response nat "json option"

definition raise_for_status :: "nat \<Rightarrow> py_exception + unit" where
  "raise_for_status status =
     (if 400 \<le> status \<and> status < 600 then Inl (HTTPError status) else Inr ())"

text \<open>
  What the program touches: the calls of \<open>requests.post\<close> made so far, the lines
  written by \<open>logger.error\<close>, and the elements that the script renders on the page in
  the current run with \<open>st.error\<close>, \<open>st.success\<close>, \<open>st.write\<close>, \<open>st.chat_message\<close> and
  \<open>st.sidebar.header\<close> (static titles, headers, input widgets and styling are left out,
  and so is what Streamlit shows of its own accord, such as the report of an uncaught
  exception).
\<close>

datatype log_record =
    ConfigError string
  | ApiRequestFailed py_exception

datatype element =
    ErrorBox string
  | SuccessBox string
  | Write string
  | ChatMessage string string
  | SidebarHeader string

record world =
  posted :: "http_request list"
  errlog :: "log_record list"
  page :: "element list"

text \<open>
  The environment: the secrets files read by \<open>st.secrets\<close> (\<open>None\<close> when there is no
  secrets file, otherwise the dictionary they hold), and the remote service, whose
  answer may depend on the request and on everything posted before it.
\<close>

record env =
  secrets_toml :: "(string \<rightharpoonup> string) option"
  upstream :: "http_request list \<Rightarrow> http_request \<Rightarrow> http_outcome"

text \<open>The configured secrets: none without a secrets file.\<close>

definition secrets :: "env \<Rightarrow> string \<rightharpoonup> string" where
  "secrets e = (case secrets_toml e of None \<Rightarrow> Map.empty | Some m \<Rightarrow> m)"

text \<open>
  \<open>st.secrets[key]\<close>: without a secrets file the lookup raises \<open>FileNotFoundError\<close>,
  with one that lacks the key it raises \<open>KeyError\<close>.
\<close>

definition secrets_getitem :: "env \<Rightarrow> string \<Rightarrow> py_exception + string" where
  "secrets_getitem e k =
     (case secrets_toml e of
        None \<Rightarrow> Inl FileNotFoundError
      | Some m \<Rightarrow> (case m k of None \<Rightarrow> Inl KeyError | Some v \<Rightarrow> Inr v))"

section \<open>The class \<open>BusinessChatbot\<close>\<close>

record BusinessChatbot =
  api_key :: string
  base_url :: string

text \<open>
  \<open>__init__\<close> (lines 35-44). The handler catches \<open>KeyError\<close> only: it logs, shows the
  error and calls \<open>st.stop()\<close>, which ends the script run. Any other exception of the
  lookup leaves the constructor: nothing is logged or shown by it, and the exception
  ends the run. In both cases the constructor returns no client.
\<close>

datatype script_control = Stop | Raised py_exception

definition BusinessChatbot_init :: "env \<Rightarrow> world \<Rightarrow> (script_control + BusinessChatbot) \<times> world" where
  "BusinessChatbot_init e w =
     (case secrets_getitem e ''NVIDIA_API_KEY'' of
        Inr k \<Rightarrow> (Inr \<lparr>api_key = k, base_url = ''https://integrate.api.nvidia.com/v1''\<rparr>, w)
      | Inl exn \<Rightarrow>
          if exn = KeyError
          then (Inl Stop,
                w\<lparr>errlog := errlog w @
                     [ConfigError ''NVIDIA_API_KEY not found in Streamlit secrets.''],
                  page := page w @
                    [ErrorBox ''Server configuration error. Please contact the administrator.'']\<rparr>)
          else (Inl (Raised exn), w))"

text \<open>The body of the \<open>try\<close> of \<open>get_response\<close> after the call (lines 61-62).\<close>

definition response_text :: "http_outcome \<Rightarrow> py_exception + string" where
  "response_text outcome =
     (case outcome of
        RequestFailed \<Rightarrow> Inl RequestException
      | Response status body \<Rightarrow>
          bind_exn (raise_for_status status) (\<lambda>_.
            case body of
              None \<Rightarrow> Inl JSONDecodeError
            | Some j \<Rightarrow>
                bind_exn (getitem_str j ''choices'') (\<lambda>choices.
                bind_exn (getitem_0 choices) (\<lambda>choice.
                bind_exn (getitem_str choice ''text'') strip_method))))"

text \<open>
  \<open>get_response\<close> (lines 46-65). First the request it builds: the headers, the
  dictionary \<open>data\<close> and the URL of the call.
\<close>

definition build_request :: "BusinessChatbot \<Rightarrow> string \<Rightarrow> int \<Rightarrow> http_request" where
  "build_request self prompt max_tokens =
     (let hdrs = [(''Authorization'', ''Bearer '' @ api_key self),
                  (''Content-Type'', ''application/json'')];
          data = JObj [(''model'', JStr ''nvidia/mistral-nemo-minitron-8b-base''),
                       (''prompt'', JStr prompt),
                       (''temperature'', JFloat 7 1),
                       (''top_p'', JFloat 95 2),
                       (''max_tokens'', JInt max_tokens),
                       (''stream'', JBool False)]
      in \<lparr>url = base_url self @ ''/completions'', headers = hdrs, json_body = data\<rparr>)"

definition get_response :: "env \<Rightarrow> BusinessChatbot \<Rightarrow> string \<Rightarrow> int \<Rightarrow> world \<Rightarrow> string \<times> world" where
  "get_response e self prompt max_tokens w =
     (let request = build_request self prompt max_tokens;
          w1 = w\<lparr>posted := posted w @ [request]\<rparr>
      in case response_text (upstream e (posted w) request) of
           Inr txt \<Rightarrow> (txt, w1)
         | Inl exn \<Rightarrow>
             (''An error occurred while processing your request. Please try again later.'',
              w1\<lparr>errlog := errlog w1 @ [ApiRequestFailed exn]\<rparr>))"

text \<open>
  \<open>answer_business_question\<close> (lines 67-73) and \<open>brainstorm_ideas\<close> (lines 75-81), each
  with the f-string it formats.
\<close>

definition qa_prompt :: "string \<Rightarrow> string" where
  "qa_prompt question =
     ''You are a professional business assistant. Please provide a helpful and insightful answer to the following business-related question:''
     @ [CHR 0x0A, CHR 0x0A] @ ''Question: '' @ question @ [CHR 0x0A, CHR 0x0A] @ ''Answer:''"

definition answer_business_question ::
    "env \<Rightarrow> BusinessChatbot \<Rightarrow> string \<Rightarrow> world \<Rightarrow> string \<times> world" where
  "answer_business_question e self question w = get_response e self (qa_prompt question) 300 w"

definition brainstorm_prompt :: "string \<Rightarrow> string" where
  "brainstorm_prompt topic =
     ''You are a creative business strategist. Please brainstorm innovative ideas related to the following business topic:''
     @ [CHR 0x0A, CHR 0x0A] @ ''Topic: '' @ topic @ [CHR 0x0A, CHR 0x0A] @ ''Ideas:''"

definition brainstorm_ideas ::
    "env \<Rightarrow> BusinessChatbot \<Rightarrow> string \<Rightarrow> world \<Rightarrow> string \<times> world" where
  "brainstorm_ideas e self topic w = get_response e self (brainstorm_prompt topic) 400 w"

section \<open>The script \<open>main\<close>\<close>

text \<open>
  Streamlit runs \<open>main\<close> from the top on every interaction. \<open>st.session_state\<close> persists
  between the runs; a key is absent until it is first assigned.
\<close>

record session_state =
  logged_in :: "bool option"
  username :: "string option"
  chat_history :: "(string \<times> string) list option"

definition empty_session :: session_state where
  "empty_session = \<lparr>logged_in = None, username = None, chat_history = None\<rparr>"

text \<open>Lines 175-180: each absent key gets its default.\<close>

definition init_session_state :: "session_state \<Rightarrow> session_state" where
  "init_session_state s =
     s\<lparr>logged_in := (case logged_in s of None \<Rightarrow> Some False | Some b \<Rightarrow> Some b),
       username := (case username s of None \<Rightarrow> Some [] | Some u \<Rightarrow> Some u),
       chat_history := (case chat_history s of None \<Rightarrow> Some [] | Some h \<Rightarrow> Some h)\<rparr>"

text \<open>Reading a key; the defaults are the ones the initialisation assigns.\<close>

definition is_logged_in :: "session_state \<Rightarrow> bool" where
  "is_logged_in s = (logged_in s = Some True)"

definition current_user :: "session_state \<Rightarrow> string" where
  "current_user s = (case username s of Some u \<Rightarrow> u | None \<Rightarrow> [])"

definition history :: "session_state \<Rightarrow> (string \<times> string) list" where
  "history s = (case chat_history s of Some h \<Rightarrow> h | None \<Rightarrow> [])"

text \<open>
  What the widgets return in one run: the login form, the sidebar button, the two tabs
  and the chat input (\<open>None\<close> when nothing was submitted).
\<close>

record widgets =
  login_username :: string
  login_password :: string
  submit :: bool
  logout :: bool
  question :: string
  get_answer :: bool
  topic :: string
  generate_ideas :: bool
  user_input :: "string option"

text \<open>
  The login form (lines 186-200). \<open>st.experimental_rerun()\<close> ends the run; nothing
  follows it in this branch.
\<close>

definition login_page :: "widgets \<Rightarrow> session_state \<times> world \<Rightarrow> session_state \<times> world" where
  "login_page ui sw =
     (let s = fst sw; w = snd sw in
      if submit ui then
        if verify_password (login_username ui) (login_password ui)
        then (s\<lparr>logged_in := Some True, username := Some (login_username ui)\<rparr>,
              w\<lparr>page := page w @ [SuccessBox ''Logged in successfully!'']\<rparr>)
        else (s, w\<lparr>page := page w @ [ErrorBox ''Invalid username or password.'']\<rparr>)
      else (s, w))"

text \<open>The tab \<open>Business Q&A\<close> (lines 223-234).\<close>

definition qa_tab :: "env \<Rightarrow> BusinessChatbot \<Rightarrow> widgets \<Rightarrow> world \<Rightarrow> world" where
  "qa_tab e chatbot ui w =
     (if get_answer ui then
        if strip (question ui) = []
        then w\<lparr>page := page w @ [ErrorBox ''Please enter a valid question.'']\<rparr>
        else (let r = answer_business_question e chatbot (question ui) w; w1 = snd r
              in w1\<lparr>page := page w1 @ [SuccessBox ''Here's your answer:'', Write (fst r)]\<rparr>)
      else w)"

text \<open>The tab \<open>Idea Brainstorming\<close> (lines 236-247).\<close>

definition brainstorm_tab :: "env \<Rightarrow> BusinessChatbot \<Rightarrow> widgets \<Rightarrow> world \<Rightarrow> world" where
  "brainstorm_tab e chatbot ui w =
     (if generate_ideas ui then
        if strip (topic ui) = []
        then w\<lparr>page := page w @ [ErrorBox ''Please enter a valid topic.'']\<rparr>
        else (let r = brainstorm_ideas e chatbot (topic ui) w; w1 = snd r
              in w1\<lparr>page := page w1 @ [SuccessBox ''Here are some innovative ideas:'', Write (fst r)]\<rparr>)
      else w)"

text \<open>
  The chat interface (lines 252-268), when the run is not interrupted. \<open>if user_input:\<close>
  holds for a submitted, non-empty string. The user turn is appended first (line 260),
  the assistant turn after the call of the client (line 268); \<open>chat_trace\<close> below has
  the configurations in between.
\<close>

definition chat_interface ::
    "env \<Rightarrow> BusinessChatbot \<Rightarrow> widgets \<Rightarrow> session_state \<times> world \<Rightarrow> session_state \<times> world" where
  "chat_interface e chatbot ui sw =
     (let s = fst sw;
          w = snd sw;
          w0 = w\<lparr>page := page w @ map (\<lambda>(role, content). ChatMessage role content) (history s)\<rparr>
      in case user_input ui of
           None \<Rightarrow> (s, w0)
         | Some txt \<Rightarrow>
             if txt = [] then (s, w0)
             else
               (let s1 = s\<lparr>chat_history := Some (history s @ [(''user'', txt)])\<rparr>;
                    w1 = w0\<lparr>page := page w0 @ [ChatMessage ''user'' txt]\<rparr>;
                    r = answer_business_question e chatbot txt w1;
                    w2 = snd r;
                    w3 = w2\<lparr>page := page w2 @ [ChatMessage ''assistant'' (fst r)]\<rparr>
                in (s1\<lparr>chat_history := Some (history s1 @ [(''assistant'', fst r)])\<rparr>, w3)))"

text \<open>
  One run of \<open>main\<close> (lines 168-268) that is not interrupted. The logout branch ends
  with \<open>st.experimental_rerun()\<close>, and a constructor that returns no client has
  called \<open>st.stop()\<close> or raised: all three end the run.
\<close>

definition main :: "env \<Rightarrow> widgets \<Rightarrow> session_state \<times> world \<Rightarrow> session_state \<times> world" where
  "main e ui sw =
     (let s = init_session_state (fst sw);
          w = (snd sw)\<lparr>page := []\<rparr>
      in if \<not> is_logged_in s then login_page ui (s, w)
         else
           (let w1 = w\<lparr>page := page w @ [SidebarHeader (''Welcome, '' @ current_user s @ ''!'')]\<rparr>
            in if logout ui
               then (s\<lparr>logged_in := Some False, username := Some [], chat_history := Some []\<rparr>, w1)
               else
                 (case BusinessChatbot_init e w1 of
                    (Inl control, w2) \<Rightarrow> (s, w2)
                  | (Inr chatbot, w2) \<Rightarrow>
                      chat_interface e chatbot ui
                        (s, brainstorm_tab e chatbot ui (qa_tab e chatbot ui w2)))))"

text \<open>
  A session in which every run reaches its end: the runs of \<open>main\<close> one after the
  other, each with its widget values.
\<close>

fun runs :: "env \<Rightarrow> widgets list \<Rightarrow> session_state \<times> world \<Rightarrow> session_state \<times> world" where
  "runs e [] sw = sw"
| "runs e (ui # uis) sw = runs e uis (main e ui sw)"

definition fresh_world :: world where
  "fresh_world = \<lparr>posted = [], errlog = [], page = []\<rparr>"

section \<open>Interrupted runs\<close>


text \<open>The worlds after each element of a list is rendered.\<close>

fun render_all :: "element list \<Rightarrow> world \<Rightarrow> world list" where
  "render_all [] w = []"
| "render_all (x # xs) w =
     w\<lparr>page := page w @ [x]\<rparr> # render_all xs (w\<lparr>page := page w @ [x]\<rparr>)"











section \<open>Notions of the specification\<close>

text \<open>
  The specification's "well-formed JSON body containing a \<open>choices[0].text\<close> field":
  an object whose member \<open>choices\<close> is a list, whose first element is an object, whose
  member \<open>text\<close> is a string (the response schema of the specification).
\<close>

fun spec_choices_text :: "json \<Rightarrow> string option" where
  "spec_choices_text (JObj members) =
     (case map_of members ''choices'' of
        Some (JArr (JObj item # _)) \<Rightarrow>
          (case map_of item ''text'' of Some (JStr t) \<Rightarrow> Some t | _ \<Rightarrow> None)
      | _ \<Rightarrow> None)"
| "spec_choices_text _ = None"


text \<open>Concrete inputs: a configured environment whose service answers every request
  with the same response, a client, and a logged-in session.\<close>

definition answering :: "http_outcome \<Rightarrow> env" where
  "answering outcome =
     \<lparr>secrets_toml = Some [''NVIDIA_API_KEY'' \<mapsto> ''nvapi-key''],
      upstream = (\<lambda>before request. outcome)\<rparr>"



definition completion :: "string \<Rightarrow> json" where
  "completion txt = JObj [(''choices'', JArr [JObj [(''text'', JStr txt)]])]"

definition a_chatbot :: BusinessChatbot where
  "a_chatbot = \<lparr>api_key = ''nvapi-key'', base_url = ''https://integrate.api.nvidia.com/v1''\<rparr>"

definition session_of :: "string \<Rightarrow> (string \<times> string) list \<Rightarrow> session_state" where
  "session_of user turns =
     \<lparr>logged_in = Some True, username = Some user, chat_history = Some turns\<rparr>"

definition no_input :: widgets where
  "no_input =
     \<lparr>login_username = [], login_password = [], submit = False, logout = False,
      question = [], get_answer = False, topic = [], generate_ideas = False,
      user_input = None\<rparr>"

section \<open>Evaluating the hash\<close>

lemma be_bytes_numeral:
  "be_bytes (numeral k) n = be_bytes (pred_numeral k) (n div 256) @ [n mod 256]"
  by (simp add: numeral_eq_Suc [of k])

lemma extend_numeral:
  "extend_schedule (numeral k) ws = extend_schedule (pred_numeral k) (next_w ws # ws)"
  by (simp add: numeral_eq_Suc [of k])

lemma replicate_numeral:
  "replicate (numeral k) x = x # replicate (pred_numeral k) x"
  by (simp add: numeral_eq_Suc [of k])

lemmas sha256_eval =
  K256_def H256_init_def add32_def rotr_def shr_def not32_def ch_def maj_def
  big_sigma0_def big_sigma1_def small_sigma0_def small_sigma1_def pad_def next_w_def
  schedule_def compress_def sha256_def hex_digit_def sha256_hexdigest_def
  be_bytes_numeral extend_numeral replicate_numeral

text \<open>The model on the test vectors of the standard: the empty message and \<open>abc\<close>.\<close>

lemma sha256_empty:
  "sha256_hexdigest '''' =
     ''e3b0c44298fc1c149afbf4c8996fb92427ae41e4649b934ca495991b7852b855''"
  by (simp add: sha256_eval)

lemma sha256_abc:
  "sha256_hexdigest ''abc'' =
     ''ba7816bf8f01cfea414140de5dae2223b00361a396177a9cb410ff61f20015ad''"
  by (simp add: sha256_eval)

text \<open>The two stored digests, and the digests of the stored digests (two blocks each).\<close>

lemma digest_user1:
  "sha256_hexdigest ''user1'' =
     ''0a041b9462caa4a31bac3567e0b6e6fd9100787db2ab433d96f6d178cabfce90''"
  by (simp add: sha256_eval)

lemma digest_password2:
  "sha256_hexdigest ''password2'' =
     ''6cf615d5bcaac778352a8f1f3360d23f02f34ec182e259897fd6ce485d7870d4''"
  by (simp add: sha256_eval)

lemma digest_of_digest_user1:
  "sha256_hexdigest ''0a041b9462caa4a31bac3567e0b6e6fd9100787db2ab433d96f6d178cabfce90'' =
     ''4d251f29c62b8cd75b2e97f55e534c0f3c1b1d67380b5b5bed5d143b3927962a''"
  by (simp add: sha256_eval)

lemma digest_of_digest_password2:
  "sha256_hexdigest ''6cf615d5bcaac778352a8f1f3360d23f02f34ec182e259897fd6ce485d7870d4'' =
     ''28a62edee56dce6d5e30187fda34d81f9368db05c3e23a49bd5ea21aaf43aac0''"
  by (simp add: sha256_eval)

section \<open>The digest is not injective\<close>

text \<open>
  A hex digest has 64 characters out of 16, so there are finitely many digests and
  infinitely many strings: SHA-256 maps two different strings to the same digest.
\<close>

lemma length_round256: "length (round256 st k w) = length st"
  by (induction st k w rule: round256.induct) simp_all

lemma length_rounds: "length (rounds st ks ws) = length st"
  by (induction st ks ws rule: rounds.induct) (simp_all add: length_round256)

lemma length_add_state: "length (add_state xs ys) = min (length xs) (length ys)"
  by (induction xs ys rule: add_state.induct) simp_all

lemma length_compress: "length (compress hs block) = length hs"
  by (simp add: compress_def length_add_state length_rounds)

lemma length_foldl_compress: "length (foldl compress hs bs) = length hs"
  by (induction bs arbitrary: hs) (simp_all add: length_compress)

lemma length_be_bytes: "length (be_bytes k n) = k"
  by (induction k arbitrary: n) simp_all

lemma be_bytes_less: "b \<in> set (be_bytes k n) \<Longrightarrow> b < 256"
  by (induction k arbitrary: n) auto

lemma length_word_bytes: "length (word_bytes ws) = 4 * length ws"
  by (induction ws) (simp_all add: length_be_bytes)

lemma word_bytes_less: "b \<in> set (word_bytes ws) \<Longrightarrow> b < 256"
  by (induction ws) (auto dest: be_bytes_less)

lemma length_sha256: "length (sha256 m) = 32"
  by (simp add: sha256_def length_word_bytes length_foldl_compress H256_init_def)

lemma sha256_less: "b \<in> set (sha256 m) \<Longrightarrow> b < 256"
  by (simp add: sha256_def word_bytes_less)

lemma length_hexdigest: "length (hexdigest bs) = 2 * length bs"
  by (induction bs) simp_all

lemma hex_digit_mem: "n < 16 \<Longrightarrow> hex_digit n \<in> set ''0123456789abcdef''"
  unfolding hex_digit_def by (rule nth_mem) simp

lemma set_hexdigest:
  "(\<And>b. b \<in> set bs \<Longrightarrow> b < 256) \<Longrightarrow> set (hexdigest bs) \<subseteq> set ''0123456789abcdef''"
proof (induction bs)
  case Nil
  then show ?case by simp
next
  case (Cons b bs)
  have "b < 256" using Cons.prems by simp
  then have "b div 16 < 16" "b mod 16 < 16" by simp_all
  then have "hex_digit (b div 16) \<in> set ''0123456789abcdef''"
    "hex_digit (b mod 16) \<in> set ''0123456789abcdef''"
    by (simp_all only: hex_digit_mem)
  moreover have "set (hexdigest bs) \<subseteq> set ''0123456789abcdef''"
    using Cons by simp
  ultimately show ?case by simp
qed

lemma sha256_hexdigest_range:
  "range sha256_hexdigest \<subseteq> {t. set t \<subseteq> set ''0123456789abcdef'' \<and> length t = 64}"
proof
  fix t
  assume "t \<in> range sha256_hexdigest"
  then obtain s where t: "t = hexdigest (sha256 (encode s))"
    by (auto simp: sha256_hexdigest_def)
  have "set t \<subseteq> set ''0123456789abcdef''"
    unfolding t by (rule set_hexdigest) (rule sha256_less)
  moreover have "length t = 64"
    by (simp add: t length_hexdigest length_sha256)
  ultimately show "t \<in> {t. set t \<subseteq> set ''0123456789abcdef'' \<and> length t = 64}"
    by blast
qed

lemma sha256_hexdigest_not_injective: "\<exists>p q. p \<noteq> q \<and> sha256_hexdigest p = sha256_hexdigest q"
proof (rule ccontr)
  assume "\<not> (\<exists>p q. p \<noteq> q \<and> sha256_hexdigest p = sha256_hexdigest q)"
  then have "inj sha256_hexdigest" by (auto simp: inj_on_def)
  moreover have "finite (range sha256_hexdigest)"
    by (rule finite_subset [OF sha256_hexdigest_range]) (rule finite_lists_length_eq, simp)
  ultimately have "finite (UNIV :: string set)" by (simp add: finite_image_iff)
  then show False by (simp add: infinite_UNIV_listI)
qed

section \<open>Authentication\<close>

lemma users_Moin:
  "users ''Moin'' =
     Some ''0a041b9462caa4a31bac3567e0b6e6fd9100787db2ab433d96f6d178cabfce90''"
  by (simp add: users_def digest_user1)

lemma users_user2:
  "users ''user2'' =
     Some ''6cf615d5bcaac778352a8f1f3360d23f02f34ec182e259897fd6ce485d7870d4''"
  by (simp add: users_def digest_password2)

lemma dom_users: "dom users = {''Moin'', ''user2''}"
  by (auto simp: users_def)

lemma users_cases:
  assumes "users u = Some d"
  shows "(u = ''Moin'' \<and>
            d = ''0a041b9462caa4a31bac3567e0b6e6fd9100787db2ab433d96f6d178cabfce90'') \<or>
         (u = ''user2'' \<and>
            d = ''6cf615d5bcaac778352a8f1f3360d23f02f34ec182e259897fd6ce485d7870d4'')"
proof -
  from assms have "u \<in> dom users" by blast
  then consider "u = ''Moin''" | "u = ''user2''" by (auto simp: dom_users)
  then show ?thesis
  proof cases
    case 1
    with assms users_Moin show ?thesis by simp
  next
    case 2
    with assms users_user2 show ?thesis by simp
  qed
qed

text \<open>
  The contract of \<open>verify_password\<close>: a user name that is not a key of \<open>users\<close> is
  rejected; for a key, the password is accepted exactly when its SHA-256 hex digest is
  the stored one; the two registered pairs are accepted. Whether some other string is
  accepted for a registered user is whether a stored digest has a second preimage under
  SHA-256, which is not settled here.
\<close>

lemma verify_password_unknown: "user \<notin> dom users \<Longrightarrow> verify_password user password = False"
  by (simp add: verify_password_def)

lemma verify_password_known:
  "users user = Some stored \<Longrightarrow>
     verify_password user password = (sha256_hexdigest password = stored)"
  by (auto simp: verify_password_def)

lemma verify_password_registered:
  "verify_password ''Moin'' ''user1''" "verify_password ''user2'' ''password2''"
  by (simp_all add: verify_password_known users_Moin users_user2 digest_user1 digest_password2)

lemma verify_password_same_digest:
  "verify_password ''Moin'' password \<longleftrightarrow>
     sha256_hexdigest password = sha256_hexdigest ''user1''"
  "verify_password ''user2'' password \<longleftrightarrow>
     sha256_hexdigest password = sha256_hexdigest ''password2''"
  by (auto simp: verify_password_def users_def)

lemma verify_password_rejects:
  "\<not> verify_password ''Moin'' []" "\<not> verify_password ''Moin'' ''abc''"
  "\<not> verify_password ''Moin'' ''password2''" "\<not> verify_password ''user2'' ''user1''"
  "\<not> verify_password [] ''user1''"
  using sha256_empty
  by (simp_all add: verify_password_known users_Moin users_user2 verify_password_unknown
      dom_users sha256_abc digest_user1 digest_password2)

text \<open>
  C10. For every registered user, the stored digest itself is not accepted as the
  password: the submitted string is hashed again, and the SHA-256 hex digest of each
  stored digest differs from that digest.
\<close>

theorem stored_digest_is_rejected:
  assumes "users u = Some d"
  shows "sha256_hexdigest d \<noteq> d \<and> verify_password u d = False"
proof -
  from users_cases [OF assms] have "sha256_hexdigest d \<noteq> d"
    by (auto simp: digest_of_digest_user1 digest_of_digest_password2)
  with assms show ?thesis by (simp add: verify_password_known)
qed

theorem stored_digest_is_rejected_witness:
  "users ''Moin'' = Some ''0a041b9462caa4a31bac3567e0b6e6fd9100787db2ab433d96f6d178cabfce90'' \<and>
   sha256_hexdigest ''0a041b9462caa4a31bac3567e0b6e6fd9100787db2ab433d96f6d178cabfce90''
     \<noteq> ''0a041b9462caa4a31bac3567e0b6e6fd9100787db2ab433d96f6d178cabfce90'' \<and>
   verify_password ''Moin'' ''0a041b9462caa4a31bac3567e0b6e6fd9100787db2ab433d96f6d178cabfce90''
     = False"
  using stored_digest_is_rejected [OF users_Moin] users_Moin by simp


section \<open>The completion client\<close>

lemma bind_exn_Inr_iff:
  "bind_exn m f = Inr y \<longleftrightarrow> (\<exists>x. m = Inr x \<and> f x = Inr y)"
  by (cases m) simp_all

lemma getitem_str_Inr_iff:
  "getitem_str j k = Inr v \<longleftrightarrow> (\<exists>members. j = JObj members \<and> map_of members k = Some v)"
  by (cases j) (auto split: option.splits)

lemma getitem_0_Inr_iff:
  "getitem_0 j = Inr v \<longleftrightarrow>
     (\<exists>xs. j = JArr (v # xs)) \<or> (\<exists>c cs. j = JStr (c # cs) \<and> v = JStr [c])"
  by (cases j) (auto split: list.splits)

lemma strip_method_Inr_iff: "strip_method j = Inr t \<longleftrightarrow> (\<exists>s. j = JStr s \<and> t = strip s)"
  by (cases j) auto

lemma spec_choices_text_Some_iff:
  "spec_choices_text j = Some t \<longleftrightarrow>
     (\<exists>members item rest. j = JObj members \<and>
        map_of members ''choices'' = Some (JArr (JObj item # rest)) \<and>
        map_of item ''text'' = Some (JStr t))"
  by (cases j) (auto split: option.splits json.splits list.splits)

text \<open>The \<open>try\<close> body succeeds exactly on the bodies of the response schema.\<close>

lemma extraction_Inr_iff:
  "bind_exn (getitem_str j ''choices'') (\<lambda>choices.
     bind_exn (getitem_0 choices) (\<lambda>choice.
     bind_exn (getitem_str choice ''text'') strip_method)) = Inr y
   \<longleftrightarrow> (\<exists>t. spec_choices_text j = Some t \<and> y = strip t)"
  by (auto simp: bind_exn_Inr_iff getitem_str_Inr_iff getitem_0_Inr_iff
      strip_method_Inr_iff spec_choices_text_Some_iff)

lemma response_text_Inr_iff:
  "response_text outcome = Inr y \<longleftrightarrow>
     (\<exists>status j t. outcome = Response status (Some j) \<and> \<not> (400 \<le> status \<and> status < 600) \<and>
        spec_choices_text j = Some t \<and> y = strip t)"
proof (cases outcome)
  case RequestFailed
  then show ?thesis by (simp add: response_text_def)
next
  case (Response status body)
  show ?thesis
  proof (cases body)
    case None
    with Response show ?thesis
      by (simp add: response_text_def raise_for_status_def)
  next
    case (Some j)
    with Response show ?thesis
      unfolding response_text_def raise_for_status_def
      by (simp add: extraction_Inr_iff)
  qed
qed

lemma fallback_or_text:
  "(case response_text outcome of Inr txt \<Rightarrow> txt | Inl exn \<Rightarrow> fb) =
     (case outcome of
        RequestFailed \<Rightarrow> fb
      | Response status body \<Rightarrow>
          if 400 \<le> status \<and> status < 600 then fb
          else
            (case body of
               None \<Rightarrow> fb
             | Some j \<Rightarrow> (case spec_choices_text j of None \<Rightarrow> fb | Some t \<Rightarrow> strip t)))"
proof (cases "\<exists>y. response_text outcome = Inr y")
  case True
  then obtain y where y: "response_text outcome = Inr y" ..
  then obtain status j t where "outcome = Response status (Some j)"
    "\<not> (400 \<le> status \<and> status < 600)" "spec_choices_text j = Some t" "y = strip t"
    unfolding response_text_Inr_iff by blast
  with y show ?thesis by auto
next
  case False
  then obtain exn where exn: "response_text outcome = Inl exn"
    by (cases "response_text outcome") auto
  from False have "spec_choices_text j = None"
    if "outcome = Response status (Some j)" "\<not> (400 \<le> status \<and> status < 600)" for status j
    using that unfolding response_text_Inr_iff by (cases "spec_choices_text j") auto
  with exn show ?thesis
    by (auto split: http_outcome.splits option.splits)
qed

lemma get_response_fst:
  "fst (get_response e self prompt max_tokens w) =
     (case response_text (upstream e (posted w) (build_request self prompt max_tokens)) of
        Inr txt \<Rightarrow> txt
      | Inl exn \<Rightarrow> ''An error occurred while processing your request. Please try again later.'')"
  by (simp add: get_response_def Let_def split: sum.splits)

lemma get_response_posted:
  "posted (snd (get_response e self prompt max_tokens w)) =
     posted w @ [build_request self prompt max_tokens]"
  by (simp add: get_response_def Let_def split: sum.splits)

text \<open>
  C2, as amended. \<open>get_response\<close> never raises and posts exactly once. It returns the
  trimmed \<open>choices[0].text\<close> when the call returns a response whose status is not in
  400..599 and whose body is JSON of the response schema; on a failed call, a status
  in 400..599, a body that is not JSON, or a body without a string at
  \<open>choices[0].text\<close>, it returns the fixed fallback string.
\<close>

theorem get_response_result:
  "fst (get_response e self prompt max_tokens w) =
     (case upstream e (posted w) (build_request self prompt max_tokens) of
        RequestFailed \<Rightarrow>
          ''An error occurred while processing your request. Please try again later.''
      | Response status body \<Rightarrow>
          if 400 \<le> status \<and> status < 600
          then ''An error occurred while processing your request. Please try again later.''
          else
            (case body of
               None \<Rightarrow>
                 ''An error occurred while processing your request. Please try again later.''
             | Some j \<Rightarrow>
                 (case spec_choices_text j of
                    None \<Rightarrow>
                      ''An error occurred while processing your request. Please try again later.''
                  | Some t \<Rightarrow> strip t)))
   \<and> posted (snd (get_response e self prompt max_tokens w)) =
       posted w @ [build_request self prompt max_tokens]"
  unfolding get_response_fst get_response_posted
  by (simp add: fallback_or_text)

text \<open>
  The claim as stated fails for a status outside 200..299 that \<open>raise_for_status\<close>
  accepts: on a response with status 300 and a body of the response schema,
  \<open>get_response\<close> returns the text, not the fallback string.
\<close>

theorem get_response_non_2xx_counterexample:
  "fst (get_response (answering (Response 300 (Some (completion '' ok '')))) a_chatbot ''hi''
          200 fresh_world) = ''ok'' \<and>
   fst (get_response (answering (Response 300 (Some (completion '' ok '')))) a_chatbot ''hi''
          200 fresh_world)
     \<noteq> ''An error occurred while processing your request. Please try again later.''"
  by (simp add: get_response_fst answering_def secrets_def completion_def response_text_def
      raise_for_status_def strip_def py_isspace_def)

text \<open>
  C3. The request that \<open>get_response\<close> posts goes to \<open>{base_url}/completions\<close>, and its
  JSON body has exactly the six members \<open>model\<close>, \<open>prompt\<close>, \<open>temperature\<close>, \<open>top_p\<close>,
  \<open>max_tokens\<close> and \<open>stream\<close>: the caller's prompt and \<open>max_tokens\<close>, the fixed model
  identifier, 0.7, 0.95 and \<open>false\<close>.
\<close>

theorem request_body_fields:
  "\<exists>request members.
     posted (snd (get_response e self prompt max_tokens w)) = posted w @ [request] \<and>
     url request = base_url self @ ''/completions'' \<and>
     json_body request = JObj members \<and>
     map fst members =
       [''model'', ''prompt'', ''temperature'', ''top_p'', ''max_tokens'', ''stream''] \<and>
     map_of members ''model'' = Some (JStr ''nvidia/mistral-nemo-minitron-8b-base'') \<and>
     map_of members ''prompt'' = Some (JStr prompt) \<and>
     map_of members ''temperature'' = Some (JFloat 7 1) \<and>
     map_of members ''top_p'' = Some (JFloat 95 2) \<and>
     map_of members ''max_tokens'' = Some (JInt max_tokens) \<and>
     map_of members ''stream'' = Some (JBool False)"
  by (simp add: get_response_posted build_request_def)

text \<open>
  C4. \<open>answer_business_question q\<close> delegates to \<open>get_response\<close> with \<open>max_tokens = 300\<close>
  and a prompt that contains \<open>Question: \<close> immediately followed by \<open>q\<close>;
  \<open>brainstorm_ideas t\<close> delegates with \<open>max_tokens = 400\<close> and a prompt that contains
  \<open>Topic: \<close> immediately followed by \<open>t\<close>.
\<close>

theorem wrappers_prompt_and_max_tokens:
  "(\<exists>prompt. sublist (''Question: '' @ q) prompt \<and>
      answer_business_question e self q w = get_response e self prompt 300 w) \<and>
   (\<exists>prompt. sublist (''Topic: '' @ t) prompt \<and>
      brainstorm_ideas e self t w = get_response e self prompt 400 w)"
proof (intro conjI exI)
  show "sublist (''Question: '' @ q) (qa_prompt q)"
    unfolding qa_prompt_def sublist_def by (metis append.assoc)
  show "sublist (''Topic: '' @ t) (brainstorm_prompt t)"
    unfolding brainstorm_prompt_def sublist_def by (metis append.assoc)
qed (simp_all add: answer_business_question_def brainstorm_ideas_def)


section \<open>The script: one run\<close>

lemma is_logged_in_init [simp]: "is_logged_in (init_session_state s) = is_logged_in s"
  by (auto simp: is_logged_in_def init_session_state_def split: option.splits)

lemma history_init [simp]: "history (init_session_state s) = history s"
  by (simp add: history_def init_session_state_def split: option.splits)

lemma current_user_init [simp]: "current_user (init_session_state s) = current_user s"
  by (simp add: current_user_def init_session_state_def split: option.splits)

lemma init_session_state_idem [simp]:
  "init_session_state (init_session_state s) = init_session_state s"
  by (simp add: init_session_state_def split: option.splits)

lemma init_session_state_present:
  "logged_in s \<noteq> None \<Longrightarrow> username s \<noteq> None \<Longrightarrow> chat_history s \<noteq> None \<Longrightarrow>
     init_session_state s = s"
  by (auto simp: init_session_state_def)

lemma answer_business_question_posted:
  "posted (snd (answer_business_question e c q w)) = posted w @ [build_request c (qa_prompt q) 300]"
  by (simp add: answer_business_question_def get_response_posted)

lemma brainstorm_ideas_posted:
  "posted (snd (brainstorm_ideas e c t w)) = posted w @ [build_request c (brainstorm_prompt t) 400]"
  by (simp add: brainstorm_ideas_def get_response_posted)

lemma qa_tab_posted:
  "posted (qa_tab e c ui w) =
     (if get_answer ui \<and> strip (question ui) \<noteq> []
      then posted w @ [build_request c (qa_prompt (question ui)) 300] else posted w)"
  by (simp add: qa_tab_def Let_def answer_business_question_posted)

lemma brainstorm_tab_posted:
  "posted (brainstorm_tab e c ui w) =
     (if generate_ideas ui \<and> strip (topic ui) \<noteq> []
      then posted w @ [build_request c (brainstorm_prompt (topic ui)) 400] else posted w)"
  by (simp add: brainstorm_tab_def Let_def brainstorm_ideas_posted)

lemma chat_interface_posted:
  "posted (snd (chat_interface e c ui (s, w))) =
     (case user_input ui of
        None \<Rightarrow> posted w
      | Some txt \<Rightarrow>
          if txt = [] then posted w else posted w @ [build_request c (qa_prompt txt) 300])"
  by (simp add: chat_interface_def Let_def answer_business_question_posted split: option.splits)

lemma chat_interface_session:
  "logged_in (fst (chat_interface e c ui (s, w))) = logged_in s"
  "username (fst (chat_interface e c ui (s, w))) = username s"
  by (simp_all add: chat_interface_def Let_def split: option.splits)


text \<open>The lookup of the key and the three outcomes of the constructor.\<close>

lemma secrets_getitem_Inr_iff: "secrets_getitem e k = Inr v \<longleftrightarrow> secrets e k = Some v"
  by (simp add: secrets_getitem_def secrets_def split: option.splits)

lemma secrets_getitem_absent:
  "secrets e k = None \<Longrightarrow>
     secrets_getitem e k = Inl (if secrets_toml e = None then FileNotFoundError else KeyError)"
  by (auto simp: secrets_getitem_def secrets_def split: option.splits)

lemma BusinessChatbot_init_configured:
  "secrets e ''NVIDIA_API_KEY'' = Some k \<Longrightarrow>
     BusinessChatbot_init e w =
       (Inr \<lparr>api_key = k, base_url = ''https://integrate.api.nvidia.com/v1''\<rparr>, w)"
  by (simp add: BusinessChatbot_init_def secrets_getitem_Inr_iff [THEN iffD2])


lemma BusinessChatbot_init_no_file:
  "secrets_toml e = None \<Longrightarrow>
     BusinessChatbot_init e w = (Inl (Raised FileNotFoundError), w)"
  by (simp add: BusinessChatbot_init_def secrets_getitem_def)



text \<open>The ways a run that is not interrupted can end, by the state it leaves.\<close>

lemma main_logged_out:
  "\<not> is_logged_in s \<Longrightarrow>
     main e ui (s, w) = login_page ui (init_session_state s, w\<lparr>page := []\<rparr>)"
  by (simp add: main_def Let_def)

lemma main_logout:
  "is_logged_in s \<Longrightarrow> logout ui \<Longrightarrow>
     fst (main e ui (s, w)) =
       (init_session_state s)\<lparr>logged_in := Some False, username := Some [], chat_history := Some []\<rparr>
     \<and> posted (snd (main e ui (s, w))) = posted w"
  by (simp add: main_def Let_def)

lemma main_no_client:
  "is_logged_in s \<Longrightarrow> \<not> logout ui \<Longrightarrow> secrets e ''NVIDIA_API_KEY'' = None \<Longrightarrow>
     main e ui (s, w) =
       (init_session_state s,
        snd (BusinessChatbot_init e
          (w\<lparr>page := [SidebarHeader (''Welcome, '' @ current_user s @ ''!'')]\<rparr>)))"
  by (simp add: main_def Let_def BusinessChatbot_init_def secrets_getitem_absent)


lemma main_configured:
  "is_logged_in s \<Longrightarrow> \<not> logout ui \<Longrightarrow> secrets e ''NVIDIA_API_KEY'' = Some k \<Longrightarrow>
     main e ui (s, w) =
       (let c = \<lparr>api_key = k, base_url = ''https://integrate.api.nvidia.com/v1''\<rparr>;
            w1 = w\<lparr>page := [SidebarHeader (''Welcome, '' @ current_user s @ ''!'')]\<rparr>
        in chat_interface e c ui
             (init_session_state s, brainstorm_tab e c ui (qa_tab e c ui w1)))"
  by (simp add: main_def Let_def BusinessChatbot_init_configured)


lemma login_page_history: "history (fst (login_page ui (s, w))) = history s"
  by (simp add: login_page_def Let_def history_def)







section \<open>The configurations of a run\<close>


lemma render_all_posted: "v \<in> set (render_all xs w) \<Longrightarrow> posted v = posted w"
  by (induction xs arbitrary: w) auto

























lemmas run_defs =
  main_def login_page_def qa_tab_def brainstorm_tab_def chat_interface_def
  BusinessChatbot_init_def secrets_getitem_def secrets_def answer_business_question_def
  brainstorm_ideas_def
  get_response_def response_text_def raise_for_status_def init_session_state_def
  is_logged_in_def current_user_def history_def strip_def py_isspace_def Let_def

section \<open>Chat turns\<close>

text \<open>
  C5, as amended. A chat turn (a non-empty chat input in a logged-in session with a
  configured key) posts, as the last request of the run, the request of
  \<open>answer_business_question\<close>: the Business Q&A template around the input, with
  \<open>max_tokens = 300\<close>.
\<close>

theorem chat_turn_request:
  assumes "is_logged_in s" "\<not> logout ui" "secrets e ''NVIDIA_API_KEY'' = Some k"
    and "user_input ui = Some txt" "txt \<noteq> []"
  shows "\<exists>before request members.
           posted (snd (main e ui (s, w))) = before @ [request] \<and>
           request = build_request
             \<lparr>api_key = k, base_url = ''https://integrate.api.nvidia.com/v1''\<rparr> (qa_prompt txt) 300 \<and>
           json_body request = JObj members \<and>
           map_of members ''prompt'' = Some (JStr (qa_prompt txt)) \<and>
           map_of members ''max_tokens'' = Some (JInt 300)"
  using assms
  by (simp add: main_configured Let_def chat_interface_posted) (simp add: build_request_def)

theorem chat_turn_request_witness:
  "is_logged_in (session_of ''Moin'' []) \<and>
   \<not> logout (no_input\<lparr>user_input := Some ''hi''\<rparr>) \<and>
   secrets (answering RequestFailed) ''NVIDIA_API_KEY'' = Some ''nvapi-key'' \<and>
   user_input (no_input\<lparr>user_input := Some ''hi''\<rparr>) = Some ''hi'' \<and>
   (\<exists>before request members.
      posted (snd (main (answering RequestFailed) (no_input\<lparr>user_input := Some ''hi''\<rparr>)
                     (session_of ''Moin'' [], fresh_world))) = before @ [request] \<and>
      request = build_request
        \<lparr>api_key = ''nvapi-key'', base_url = ''https://integrate.api.nvidia.com/v1''\<rparr>
        (qa_prompt ''hi'') 300 \<and>
      json_body request = JObj members \<and>
      map_of members ''prompt'' = Some (JStr (qa_prompt ''hi'')) \<and>
      map_of members ''max_tokens'' = Some (JInt 300))"
proof -
  have h: "is_logged_in (session_of ''Moin'' [])"
    "\<not> logout (no_input\<lparr>user_input := Some ''hi''\<rparr>)"
    "secrets (answering RequestFailed) ''NVIDIA_API_KEY'' = Some ''nvapi-key''"
    "user_input (no_input\<lparr>user_input := Some ''hi''\<rparr>) = Some ''hi''"
    "''hi'' \<noteq> []"
    by (simp_all add: is_logged_in_def session_of_def no_input_def answering_def secrets_def)
  from chat_turn_request [OF h, of fresh_world] h show ?thesis by blast
qed

text \<open>
  The claim as stated fails: the only request of a chat turn carries
  \<open>max_tokens = 300\<close>, not the default 200 of \<open>get_response\<close>.
\<close>

theorem chat_turn_max_tokens_counterexample:
  "map (\<lambda>request. getitem_str (json_body request) ''max_tokens'')
     (posted (snd (main (answering RequestFailed) (no_input\<lparr>user_input := Some ''hi''\<rparr>)
                     (session_of ''Moin'' [], fresh_world))))
   = [Inr (JInt 300)] \<and>
   map (\<lambda>request. getitem_str (json_body request) ''max_tokens'')
     (posted (snd (main (answering RequestFailed) (no_input\<lparr>user_input := Some ''hi''\<rparr>)
                     (session_of ''Moin'' [], fresh_world))))
   \<noteq> [Inr (JInt 200)]"
  by (simp add: run_defs answering_def secrets_def no_input_def session_of_def fresh_world_def
      build_request_def)

section \<open>Configuration\<close>






section \<open>Blank input\<close>

lemma chat_interface_page_no_input:
  "user_input ui = None \<Longrightarrow>
     page (snd (chat_interface e c ui (s, w))) =
       page w @ map (\<lambda>(role, content). ChatMessage role content) (history s)"
  by (simp add: chat_interface_def Let_def)

lemma qa_tab_blank:
  "get_answer ui \<Longrightarrow> strip (question ui) = [] \<Longrightarrow>
     qa_tab e c ui w = w\<lparr>page := page w @ [ErrorBox ''Please enter a valid question.'']\<rparr>"
  by (simp add: qa_tab_def)

lemma brainstorm_tab_blank:
  "generate_ideas ui \<Longrightarrow> strip (topic ui) = [] \<Longrightarrow>
     brainstorm_tab e c ui w = w\<lparr>page := page w @ [ErrorBox ''Please enter a valid topic.'']\<rparr>"
  by (simp add: brainstorm_tab_def)

lemma qa_tab_idle: "\<not> get_answer ui \<Longrightarrow> qa_tab e c ui w = w"
  by (simp add: qa_tab_def)

lemma brainstorm_tab_idle: "\<not> generate_ideas ui \<Longrightarrow> brainstorm_tab e c ui w = w"
  by (simp add: brainstorm_tab_def)

text \<open>
  C7, as amended. A blank question and a blank topic (empty or whitespace only) are
  rejected by their tabs with an error message and without a call of the completion
  client; a run of a logged-in, configured session in which the submitted question and
  topic are blank and no chat input was submitted posts nothing.
\<close>

theorem blank_question_or_topic_rejected:
  "(get_answer ui \<and> strip (question ui) = [] \<longrightarrow>
      qa_tab e c ui w = w\<lparr>page := page w @ [ErrorBox ''Please enter a valid question.'']\<rparr>) \<and>
   (generate_ideas ui \<and> strip (topic ui) = [] \<longrightarrow>
      brainstorm_tab e c ui w = w\<lparr>page := page w @ [ErrorBox ''Please enter a valid topic.'']\<rparr>) \<and>
   (is_logged_in s \<and> \<not> logout ui \<and> secrets e ''NVIDIA_API_KEY'' = Some k \<and>
    (get_answer ui \<longrightarrow> strip (question ui) = []) \<and>
    (generate_ideas ui \<longrightarrow> strip (topic ui) = []) \<and> user_input ui = None \<longrightarrow>
      posted (snd (main e ui (s, w))) = posted w \<and>
      (get_answer ui \<longrightarrow>
         ErrorBox ''Please enter a valid question.'' \<in> set (page (snd (main e ui (s, w))))) \<and>
      (generate_ideas ui \<longrightarrow>
         ErrorBox ''Please enter a valid topic.'' \<in> set (page (snd (main e ui (s, w))))))"
proof (intro conjI impI)
  assume "get_answer ui \<and> strip (question ui) = []"
  then show "qa_tab e c ui w = w\<lparr>page := page w @ [ErrorBox ''Please enter a valid question.'']\<rparr>"
    by (simp add: qa_tab_blank)
next
  assume "generate_ideas ui \<and> strip (topic ui) = []"
  then show "brainstorm_tab e c ui w =
      w\<lparr>page := page w @ [ErrorBox ''Please enter a valid topic.'']\<rparr>"
    by (simp add: brainstorm_tab_blank)
next
  assume a: "is_logged_in s \<and> \<not> logout ui \<and> secrets e ''NVIDIA_API_KEY'' = Some k \<and>
    (get_answer ui \<longrightarrow> strip (question ui) = []) \<and>
    (generate_ideas ui \<longrightarrow> strip (topic ui) = []) \<and> user_input ui = None"
  then show "posted (snd (main e ui (s, w))) = posted w"
    by (auto simp: main_configured Let_def chat_interface_posted brainstorm_tab_posted
        qa_tab_posted)
  {
    assume "get_answer ui"
    with a show "ErrorBox ''Please enter a valid question.'' \<in> set (page (snd (main e ui (s, w))))"
      by (cases "generate_ideas ui")
        (simp_all add: main_configured Let_def chat_interface_page_no_input qa_tab_blank
          brainstorm_tab_blank brainstorm_tab_idle)
  }
  {
    assume "generate_ideas ui"
    with a show "ErrorBox ''Please enter a valid topic.'' \<in> set (page (snd (main e ui (s, w))))"
      by (cases "get_answer ui")
        (simp_all add: main_configured Let_def chat_interface_page_no_input qa_tab_blank
          brainstorm_tab_blank qa_tab_idle)
  }
qed


theorem blank_question_or_topic_rejected_witness:
  "get_answer (no_input\<lparr>get_answer := True, question := ''   '', generate_ideas := True\<rparr>) \<and>
   strip (question (no_input\<lparr>get_answer := True, question := ''   '', generate_ideas := True\<rparr>)) = [] \<and>
   strip (topic (no_input\<lparr>get_answer := True, question := ''   '', generate_ideas := True\<rparr>)) = [] \<and>
   is_logged_in (session_of ''Moin'' []) \<and>
   secrets (answering RequestFailed) ''NVIDIA_API_KEY'' = Some ''nvapi-key'' \<and>
   qa_tab (answering RequestFailed) a_chatbot
       (no_input\<lparr>get_answer := True, question := ''   '', generate_ideas := True\<rparr>) fresh_world =
     fresh_world\<lparr>page := [ErrorBox ''Please enter a valid question.'']\<rparr> \<and>
   brainstorm_tab (answering RequestFailed) a_chatbot
       (no_input\<lparr>get_answer := True, question := ''   '', generate_ideas := True\<rparr>) fresh_world =
     fresh_world\<lparr>page := [ErrorBox ''Please enter a valid topic.'']\<rparr> \<and>
   posted (snd (main (answering RequestFailed)
       (no_input\<lparr>get_answer := True, question := ''   '', generate_ideas := True\<rparr>)
       (session_of ''Moin'' [], fresh_world))) = [] \<and>
   ErrorBox ''Please enter a valid question.'' \<in>
     set (page (snd (main (answering RequestFailed)
       (no_input\<lparr>get_answer := True, question := ''   '', generate_ideas := True\<rparr>)
       (session_of ''Moin'' [], fresh_world)))) \<and>
   ErrorBox ''Please enter a valid topic.'' \<in>
     set (page (snd (main (answering RequestFailed)
       (no_input\<lparr>get_answer := True, question := ''   '', generate_ideas := True\<rparr>)
       (session_of ''Moin'' [], fresh_world))))"
proof -
  let ?ui = "no_input\<lparr>get_answer := True, question := ''   '', generate_ideas := True\<rparr>"
  have h: "get_answer ?ui" "strip (question ?ui) = []" "generate_ideas ?ui"
    "strip (topic ?ui) = []" "is_logged_in (session_of ''Moin'' [])" "\<not> logout ?ui"
    "secrets (answering RequestFailed) ''NVIDIA_API_KEY'' = Some ''nvapi-key''"
    "user_input ?ui = None"
    by (simp_all add: no_input_def session_of_def answering_def secrets_def is_logged_in_def strip_def
        py_isspace_def)
  from blank_question_or_topic_rejected
    [of ?ui "answering RequestFailed" a_chatbot fresh_world "session_of ''Moin'' []" "''nvapi-key''"]
    h
  show ?thesis by (simp add: fresh_world_def)
qed

text \<open>
  The claim as stated fails for the chat input: \<open>if user_input:\<close> only tests that the
  string is not empty, so a chat input of three spaces is posted to the service.
\<close>

theorem whitespace_chat_input_counterexample:
  "strip ''   '' = [] \<and>
   posted (snd (main (answering RequestFailed) (no_input\<lparr>user_input := Some ''   ''\<rparr>)
                  (session_of ''Moin'' [], fresh_world))) =
     [build_request a_chatbot (qa_prompt ''   '') 300]"
  by (simp add: run_defs answering_def secrets_def no_input_def session_of_def fresh_world_def
      a_chatbot_def)

section \<open>The chat history\<close>

lemma chat_interface_is_logged_in:
  "is_logged_in (fst (chat_interface e c ui (s, w))) = is_logged_in s"
  by (simp add: is_logged_in_def chat_interface_session)

lemma main_stays_logged_in:
  assumes "is_logged_in s" "\<not> logout ui"
  shows "is_logged_in (fst (main e ui (s, w)))"
proof (cases "secrets e ''NVIDIA_API_KEY''")
  case None
  with assms show ?thesis by (simp add: main_no_client)
next
  case (Some k)
  with assms show ?thesis
    by (simp add: main_configured Let_def chat_interface_is_logged_in)
qed

lemma login_page_cases:
  "fst (login_page ui (s, w)) = s \<or> is_logged_in (fst (login_page ui (s, w)))"
  by (simp add: login_page_def Let_def is_logged_in_def)

lemma main_after_logout:
  assumes "is_logged_in s" "logout ui"
  shows "\<not> is_logged_in (fst (main e ui (s, w)))"
    and "history (fst (main e ui (s, w))) = []"
    and "current_user (fst (main e ui (s, w))) = []"
  using assms by (simp_all add: main_logout is_logged_in_def history_def current_user_def)

lemma main_logged_out_history:
  assumes "\<not> is_logged_in s" "history s = []"
  shows "history (fst (main e ui (s, w))) = []"
  using assms by (simp add: main_logged_out login_page_history)




section \<open>Failed logins\<close>

lemma main_login_page_result:
  assumes "\<not> is_logged_in s" "submit ui"
    and "\<not> verify_password (login_username ui) (login_password ui)"
  shows "main e ui (s, w) =
           (init_session_state s, w\<lparr>page := [ErrorBox ''Invalid username or password.'']\<rparr>)"
  using assms by (simp add: main_logged_out login_page_def)

lemma logged_out_invariant_main:
  assumes "\<not> is_logged_in s \<longrightarrow> current_user s = [] \<and> history s = []"
  shows "\<not> is_logged_in (fst (main e ui (s, w))) \<longrightarrow>
           current_user (fst (main e ui (s, w))) = [] \<and> history (fst (main e ui (s, w))) = []"
proof (cases "is_logged_in s")
  case True
  then show ?thesis
    using main_stays_logged_in [of s ui e w] main_after_logout [of s ui e w]
    by (cases "logout ui") auto
next
  case False
  with assms show ?thesis
    using login_page_cases [of ui "init_session_state s" "w\<lparr>page := []\<rparr>"]
    by (auto simp: main_logged_out)
qed

lemma logged_out_invariant_runs:
  assumes "\<not> is_logged_in (fst sw) \<longrightarrow> current_user (fst sw) = [] \<and> history (fst sw) = []"
  shows "\<not> is_logged_in (fst (runs e uis sw)) \<longrightarrow>
           current_user (fst (runs e uis sw)) = [] \<and> history (fst (runs e uis sw)) = []"
  using assms
proof (induction uis arbitrary: sw)
  case Nil
  then show ?case by simp
next
  case (Cons ui uis)
  have "\<not> is_logged_in (fst (main e ui sw)) \<longrightarrow>
      current_user (fst (main e ui sw)) = [] \<and> history (fst (main e ui sw)) = []"
    using logged_out_invariant_main [of "fst sw" e ui "snd sw"] Cons.prems by simp
  from Cons.IH [OF this] show ?case by simp
qed

text \<open>
  C9. A failed login attempt changes nothing in the session state: the state after
  the run is the initialised state before it (the state itself once its keys exist),
  so the session stays logged out with the same user name and chat history; the page
  shows only the error message, nothing is posted and nothing is logged. In a session
  that is logged out, after any runs from a new session, the stored user name and the
  chat history are empty.
\<close>

theorem failed_login_leaves_session:
  assumes "\<not> is_logged_in s" "submit ui"
    and "\<not> verify_password (login_username ui) (login_password ui)"
  shows "fst (main e ui (s, w)) = init_session_state s \<and>
         (logged_in s \<noteq> None \<and> username s \<noteq> None \<and> chat_history s \<noteq> None \<longrightarrow>
            fst (main e ui (s, w)) = s) \<and>
         \<not> is_logged_in (fst (main e ui (s, w))) \<and>
         current_user (fst (main e ui (s, w))) = current_user s \<and>
         history (fst (main e ui (s, w))) = history s \<and>
         page (snd (main e ui (s, w))) = [ErrorBox ''Invalid username or password.''] \<and>
         posted (snd (main e ui (s, w))) = posted w \<and>
         errlog (snd (main e ui (s, w))) = errlog w \<and>
         (\<not> is_logged_in (fst (runs e uis (empty_session, w0))) \<longrightarrow>
            current_user (fst (runs e uis (empty_session, w0))) = [] \<and>
            history (fst (runs e uis (empty_session, w0))) = [])"
proof -
  have "\<not> is_logged_in (fst (runs e uis (empty_session, w0))) \<longrightarrow>
      current_user (fst (runs e uis (empty_session, w0))) = [] \<and>
      history (fst (runs e uis (empty_session, w0))) = []"
    by (rule logged_out_invariant_runs)
      (simp add: empty_session_def current_user_def history_def)
  with assms show ?thesis
    by (simp add: main_login_page_result init_session_state_present)
qed

theorem failed_login_leaves_session_witness:
  "\<not> is_logged_in (init_session_state empty_session) \<and>
   \<not> verify_password ''eve'' ''guess'' \<and>
   main (answering RequestFailed)
     (no_input\<lparr>login_username := ''eve'', login_password := ''guess'', submit := True\<rparr>)
     (init_session_state empty_session, fresh_world) =
     (init_session_state empty_session,
      fresh_world\<lparr>page := [ErrorBox ''Invalid username or password.'']\<rparr>) \<and>
   current_user (init_session_state empty_session) = [] \<and>
   history (init_session_state empty_session) = []"
proof -
  let ?ui = "no_input\<lparr>login_username := ''eve'', login_password := ''guess'', submit := True\<rparr>"
  let ?s = "init_session_state empty_session"
  have h: "\<not> is_logged_in ?s" "submit ?ui"
    "\<not> verify_password (login_username ?ui) (login_password ?ui)"
    by (simp_all add: is_logged_in_def empty_session_def init_session_state_def no_input_def
        verify_password_unknown dom_users)
  from failed_login_leaves_session [OF h, of "answering RequestFailed" fresh_world "[]" fresh_world]
  have "fst (main (answering RequestFailed) ?ui (?s, fresh_world)) = ?s"
    and "page (snd (main (answering RequestFailed) ?ui (?s, fresh_world))) =
      [ErrorBox ''Invalid username or password.'']"
    and "posted (snd (main (answering RequestFailed) ?ui (?s, fresh_world))) = posted fresh_world"
    and "errlog (snd (main (answering RequestFailed) ?ui (?s, fresh_world))) = errlog fresh_world"
    by simp_all
  then have "main (answering RequestFailed) ?ui (?s, fresh_world) =
      (?s, fresh_world\<lparr>page := [ErrorBox ''Invalid username or password.'']\<rparr>)"
    by (cases "main (answering RequestFailed) ?ui (?s, fresh_world)") (simp add: fresh_world_def)
  with h show ?thesis
    by (simp add: no_input_def current_user_def history_def init_session_state_def
        empty_session_def)
qed


end
